theory Spec2Isabelle
  imports Main
begin

section \<open>Game view model (src/types.ts)\<close>

text \<open>
  The snapshot types of \<^verbatim>\<open>types.ts\<close>. A \<^verbatim>\<open>string | null\<close> field is a
  \<open>string option\<close>; \<^verbatim>\<open>players: Record<string, PublicPlayer>\<close> is an association
  list read with \<open>map_of\<close>, so that a lookup of a missing key is \<open>None\<close>
  (JavaScript's \<^verbatim>\<open>undefined\<close>) and the number of keys can be computed. Numbers
  are integers. The lookup is that of an own key: the object parsed from the response
  also answers for the names it inherits from \<^verbatim>\<open>Object.prototype\<close>, listed below,
  and a statement about an id that is not found takes \<open>own_keys_only\<close> as a hypothesis.
\<close>

datatype GamePhase =
  lobby | action_selection | block_window | challenge_window
  | swap_choice | loss_choice | game_over

datatype GameMode = normal_team | super_team

datatype Team = A | B

record PublicPlayer =
  player_id :: string
  name :: string
  team :: Team
  coins :: int
  alive :: bool
  num_cards :: int
  cards :: "string list option"

record PublicAction =
  actor_id :: string
  action :: string
  target_id :: "string option"

record PublicBlock =
  blocker_id :: string
  block_type :: string

record GameView =
  game_id :: string
  mode :: GameMode
  phase :: GamePhase
  you :: string
  current_player :: "string option"
  turn_order :: "string list"
  players :: "(string \<times> PublicPlayer) list"
  winner_team :: "Team option"
  logs :: "string list"
  pending_action :: "PublicAction option"
  pending_block :: "PublicBlock option"
  exchange_pool_size :: int
  exchange_cards :: "string list option"
  loss_choice_player_id :: "string option"
  loss_choice_cards :: "string list option"
  deck_size :: int
  revealed_cards :: "string list"

text \<open>Reading a property of \<^verbatim>\<open>undefined\<close> raises a \<^verbatim>\<open>TypeError\<close>.\<close>

datatype error = TypeError

text \<open>\<^verbatim>\<open>view.players[id]\<close>\<close>

definition player_at :: "GameView \<Rightarrow> string \<Rightarrow> PublicPlayer option" where
  "player_at view pid = map_of (players view) pid"

text \<open>\<^verbatim>\<open>Object.keys(view.players).length\<close>\<close>

definition player_count :: "GameView \<Rightarrow> nat" where
  "player_count view = length (remdups (map fst (players view)))"

text \<open>
  JavaScript truthiness of a \<^verbatim>\<open>string | null\<close>: \<^verbatim>\<open>null\<close> and the empty
  string are falsy.
\<close>

definition truthy :: "string option \<Rightarrow> bool" where
  "truthy s = (case s of None \<Rightarrow> False | Some t \<Rightarrow> t \<noteq> [])"




section \<open>Narration (GameLayout.tsx, lines 296--348 and 1100--1129)\<close>

definition humanAction :: "string \<Rightarrow> string" where
  "humanAction a =
     (if a = ''income'' then ''income''
      else if a = ''foreign_aid'' then ''Foreign Aid''
      else if a = ''tax'' then ''Duke''
      else if a = ''super_tax'' then ''Super Duke''
      else if a = ''steal'' then ''Captain''
      else if a = ''super_steal'' then ''Super Captain''
      else if a = ''exchange'' then ''Ambassador''
      else if a = ''super_exchange'' then ''Super Ambassador''
      else if a = ''assassinate'' then ''Assassin''
      else if a = ''super_assassinate'' then ''Super Assassin''
      else if a = ''coup'' then ''Coup''
      else if a = ''super_coup'' then ''Super Coup''
      else a)"

definition formatActionPhrase :: "string \<Rightarrow> string \<Rightarrow> string option \<Rightarrow> string" where
  "formatActionPhrase base a targetName =
     (if \<not> truthy targetName then base
      else if a = ''steal'' \<or> a = ''super_steal''
        then base @ '' from '' @ the targetName
      else if a = ''assassinate'' \<or> a = ''super_assassinate''
              \<or> a = ''coup'' \<or> a = ''super_coup''
        then base @ '' on '' @ the targetName
      else base @ '' on '' @ the targetName)"

text \<open>
  \<^verbatim>\<open>id && view.players[id] ? view.players[id] : null\<close>, the guarded lookup used
  for the target of a pending action and for the selected target.
\<close>

definition guarded_player :: "GameView \<Rightarrow> string option \<Rightarrow> PublicPlayer option" where
  "guarded_player view pid =
     (if truthy pid then player_at view (the pid) else None)"

text \<open>The target's name for the table log: \<^verbatim>\<open>... ? view.players[pa.target_id].name : null\<close>\<close>

definition targetName_of :: "GameView \<Rightarrow> PublicAction \<Rightarrow> string option" where
  "targetName_of view pa = map_option name (guarded_player view (target_id pa))"

definition buildCurrentActionSummary :: "GameView \<Rightarrow> string option" where
  "buildCurrentActionSummary view =
     (case (pending_block view, pending_action view) of
        (Some pb, Some pa) \<Rightarrow>
          (case (player_at view (blocker_id pb), player_at view (actor_id pa)) of
             (Some blocker, Some actor) \<Rightarrow>
               Some (name blocker @ '' attempts to block '' @ name actor @ '''s ''
                     @ formatActionPhrase (humanAction (action pa)) (action pa)
                         (targetName_of view pa))
           | _ \<Rightarrow> None)
      | (_, Some pa) \<Rightarrow>
          (case player_at view (actor_id pa) of
             None \<Rightarrow> None
           | Some actor \<Rightarrow>
               Some (name actor @ '' attempts ''
                     @ formatActionPhrase (humanAction (action pa)) (action pa)
                         (targetName_of view pa)))
      | (_, None) \<Rightarrow> None)"

section \<open>Seat rotation (GameLayout.tsx, lines 55--65)\<close>

text \<open>\<^verbatim>\<open>Array.prototype.indexOf\<close>: the first index of the element, or \<open>-1\<close>.\<close>

fun indexOf :: "string list \<Rightarrow> string \<Rightarrow> int" where
  "indexOf [] x = -1"
| "indexOf (y # ys) x =
     (if y = x then 0 else (let r = indexOf ys x in if r = -1 then -1 else r + 1))"

definition rotate_seats :: "string list \<Rightarrow> string \<Rightarrow> string list" where
  "rotate_seats orderedIds viewer =
     (let youIndex = indexOf orderedIds viewer
      in if youIndex = -1 then orderedIds
         else drop (nat youIndex) orderedIds @ take (nat youIndex) orderedIds)"

text \<open>\<^verbatim>\<open>rotatedIds.map((id) => view.players[id]).filter(Boolean)\<close>\<close>

definition seats_of :: "GameView \<Rightarrow> string list \<Rightarrow> PublicPlayer list" where
  "seats_of view ids = List.map_filter (player_at view) ids"

section \<open>Eligibility engine: ActionPanel (GameLayout.tsx, lines 488--1045)\<close>

text \<open>
  What a panel shows is kept as its sentence and its list of controls. A control is the
  command its \<^verbatim>\<open>onClick\<close> sends (\<^verbatim>\<open>onChallenge\<close> is \<open>''challenge''\<close>,
  \<^verbatim>\<open>onNoChallenge\<close> is \<open>''no_challenge''\<close>, \<^verbatim>\<open>onNoBlock\<close> is \<open>''no_block''\<close>,
  \<^verbatim>\<open>onBlock(t)\<close> is \<open>t\<close>, \<^verbatim>\<open>onStartGame\<close> is \<open>''start_game''\<close>,
  \<^verbatim>\<open>selectOrUseTarget(a)\<close> is \<open>a\<close>) paired with whether the button is enabled
  (it has no \<^verbatim>\<open>disabled\<close> attribute, or the attribute is false). A button that is
  not rendered is not in the list.
\<close>

type_synonym control = "string \<times> bool"

datatype panel =
    LobbyPanel nat "control list"
  | GameOverPanel "Team option"
  | SwapChoiceElement
  | LossChoiceElement
  | ChallengeInfoPanel string
  | ChallengePanel string "control list"
  | BlockInfoPanel string
  | BlockPanel string "control list"
  | ActionSelectionPanel string string "control list"

fun controls :: "panel \<Rightarrow> control list" where
  "controls (LobbyPanel n cs) = cs"
| "controls (ChallengePanel t cs) = cs"
| "controls (BlockPanel t cs) = cs"
| "controls (ActionSelectionPanel t u cs) = cs"
| "controls _ = []"

text \<open>The target's name as the viewer reads it (\<^verbatim>\<open>targetNameForViewer\<close>).\<close>

definition targetNameForViewer :: "GameView \<Rightarrow> PublicPlayer \<Rightarrow> PublicAction \<Rightarrow> string option" where
  "targetNameForViewer view y pa =
     (case guarded_player view (target_id pa) of
        None \<Rightarrow> None
      | Some targetPlayer \<Rightarrow>
          if player_id targetPlayer = player_id y then Some ''you''
          else Some (name targetPlayer))"

text \<open>The two returns that close the challenge window (lines 652--683).\<close>

definition challenge_render :: "string \<Rightarrow> bool \<Rightarrow> panel" where
  "challenge_render text canChallenge =
     (if \<not> canChallenge then ChallengeInfoPanel text
      else ChallengePanel text [(''challenge'', True), (''no_challenge'', True)])"

definition challenge_window_panel :: "GameView \<Rightarrow> PublicPlayer \<Rightarrow> panel option" where
  "challenge_window_panel view y =
     (case (pending_block view, pending_action view) of
        (None, None) \<Rightarrow> None
      | (Some pb, Some pa) \<Rightarrow>
          (case (player_at view (blocker_id pb), player_at view (actor_id pa)) of
             (Some blocker, Some actor) \<Rightarrow>
               (let actionPhrase = formatActionPhrase (humanAction (action pa)) (action pa)
                                     (targetNameForViewer view y pa);
                    isYouBlocker = (player_id blocker = player_id y);
                    isYouActor = (player_id actor = player_id y);
                    blockerSameTeam = (team blocker = team y);
                    actorLabel = (if isYouActor then ''your'' else name actor @ '''s'')
                in if isYouBlocker then
                     Some (challenge_render
                       (''You are attempting to block '' @ actorLabel @ '' ''
                        @ actionPhrase @ ''.'') False)
                   else if blockerSameTeam then
                     Some (challenge_render
                       (''Your teammate '' @ name blocker @ '' is attempting to block ''
                        @ actorLabel @ '' '' @ actionPhrase @ ''.'') False)
                   else
                     Some (challenge_render
                       (''Opponent '' @ name blocker @ '' is attempting to block ''
                        @ actorLabel @ '' '' @ actionPhrase @ ''.'') (alive y)))
           | _ \<Rightarrow> None)
      | (None, Some pa) \<Rightarrow>
          (case player_at view (actor_id pa) of
             None \<Rightarrow> None
           | Some actor \<Rightarrow>
               (let phrase = formatActionPhrase (humanAction (action pa)) (action pa)
                               (targetNameForViewer view y pa);
                    isYouActor = (player_id actor = player_id y);
                    actorSameTeam = (team actor = team y)
                in if isYouActor then
                     Some (challenge_render (''You are attempting '' @ phrase @ ''.'') False)
                   else if actorSameTeam then
                     Some (challenge_render
                       (''Your teammate '' @ name actor @ '' is attempting '' @ phrase @ ''.'')
                       False)
                   else
                     Some (challenge_render
                       (''Opponent '' @ name actor @ '' is attempting '' @ phrase @ ''.'')
                       (alive y))))
      | (Some pb, None) \<Rightarrow> None)"

text \<open>The list literal behind \<^verbatim>\<open>isTargetedAction\<close> (lines 696--702).\<close>

definition targetedActions :: "string list" where
  "targetedActions = [''steal'', ''super_steal'', ''assassinate'', ''super_assassinate'', ''coup'']"

definition block_window_panel :: "GameView \<Rightarrow> PublicPlayer \<Rightarrow> panel option" where
  "block_window_panel view y =
     (case pending_action view of
        None \<Rightarrow> None
      | Some act \<Rightarrow>
          (let actor = player_at view (actor_id act);
               actorName = (case actor of None \<Rightarrow> ''Someone'' | Some a \<Rightarrow> name a);
               isTarget = (target_id act = Some (player_id y));
               isSameTeam = (case actor of None \<Rightarrow> False | Some a \<Rightarrow> team a = team y);
               isTargetedAction = (action act \<in> set targetedActions);
               canBlockForeignAid =
                 (action act = ''foreign_aid'' \<and> \<not> isSameTeam \<and> actor \<noteq> None);
               canBlockSteal =
                 ((action act = ''steal'' \<or> action act = ''super_steal'') \<and> isTarget);
               canBlockAssassinate =
                 ((action act = ''assassinate'' \<or> action act = ''super_assassinate'')
                  \<and> isTarget);
               canBlockCoup =
                 (mode view = super_team \<and> action act = ''coup'' \<and> isTarget
                  \<and> num_cards y \<ge> 2);
               human = formatActionPhrase (humanAction (action act)) (action act)
                         (targetNameForViewer view y act)
           in if isSameTeam \<and> actor \<noteq> None then
                Some (BlockInfoPanel
                  (if player_id (the actor) = player_id y
                   then ''You are performing '' @ human @ ''. Opponents may choose to block.''
                   else ''Your teammate '' @ actorName @ '' is performing '' @ human
                        @ ''. Opponents may choose to block.''))
              else if isTargetedAction \<and> \<not> isTarget then
                Some (BlockInfoPanel
                  (''Opponent '' @ actorName @ '' is performing '' @ human
                   @ ''. Only the targeted player can decide to block or let it through.''))
              else
                Some (BlockPanel
                  (''Opponent '' @ actorName @ '' is performing '' @ human @ ''.'')
                  ((if canBlockForeignAid then [(''block_foreign_aid'', True)] else [])
                   @ (if canBlockSteal
                      then [(''block_steal_captain'', True), (''block_steal_ambassador'', True)]
                      else [])
                   @ (if canBlockAssassinate then [(''block_assassinate'', True)] else [])
                   @ (if canBlockCoup then [(''block_coup'', True)] else [])
                   @ [(''no_block'', True)]))))"

text \<open>
  The action grid (lines 830--1042). Line 855 reads \<^verbatim>\<open>view.players[selectedTarget].name\<close>
  with no guard, so a truthy selection that names no player raises. Each button's
  flag is the negation of its \<^verbatim>\<open>disabled\<close> expression; the super buttons are rendered
  in super mode only.
\<close>

definition action_selection_panel ::
  "GameView \<Rightarrow> PublicPlayer \<Rightarrow> bool \<Rightarrow> string option \<Rightarrow> bool \<Rightarrow> error + panel option" where
  "action_selection_panel view y canAct selectedTarget targetHasCoins =
     (let superMode = (mode view = super_team);
          canUseSupers = (num_cards y \<ge> 2 \<and> superMode);
          sel = truthy selectedTarget;
          turnText =
            (if current_player view = Some (player_id y) then ''Your turn.''
             else ''Waiting for ''
                  @ (case player_at view (case current_player view of None \<Rightarrow> [] | Some c \<Rightarrow> c) of
                       None \<Rightarrow> ''someone'' | Some p \<Rightarrow> name p)
                  @ '' to act.'')
      in if sel \<and> player_at view (the selectedTarget) = None then Inl TypeError
         else
           Inr (Some (ActionSelectionPanel turnText
             (if sel then name (the (player_at view (the selectedTarget)))
              else ''click an enemy seat for Coup/Assassin/Captain'')
             ([(''income'', \<not> \<not> canAct),
               (''foreign_aid'', \<not> \<not> canAct),
               (''coup'', \<not> (\<not> canAct \<or> coins y < 7 \<or> \<not> sel))]
              @ (if superMode
                 then [(''super_coup'', \<not> (\<not> canAct \<or> coins y < 12 \<or> \<not> sel))] else [])
              @ [(''assassinate'', \<not> (\<not> canAct \<or> coins y < 3 \<or> \<not> sel))]
              @ (if superMode
                 then [(''super_assassinate'',
                        \<not> (\<not> canAct \<or> coins y < 3 \<or> \<not> sel \<or> \<not> canUseSupers))]
                 else [])
              @ [(''steal'', \<not> (\<not> canAct \<or> \<not> sel \<or> \<not> targetHasCoins))]
              @ (if superMode
                 then [(''super_steal'',
                        \<not> (\<not> canAct \<or> \<not> sel \<or> \<not> targetHasCoins \<or> \<not> canUseSupers))]
                 else [])
              @ [(''tax'', \<not> \<not> canAct)]
              @ (if superMode then [(''super_tax'', \<not> (\<not> canAct \<or> \<not> canUseSupers))] else [])
              @ [(''exchange'', \<not> \<not> canAct)]
              @ (if superMode
                 then [(''super_exchange'', \<not> (\<not> canAct \<or> \<not> canUseSupers))] else [])))))"

definition ActionPanel ::
  "GameView \<Rightarrow> PublicPlayer \<Rightarrow> bool \<Rightarrow> string option \<Rightarrow> bool \<Rightarrow> error + panel option" where
  "ActionPanel view y canAct selectedTarget targetHasCoins =
     (case phase view of
        lobby \<Rightarrow> Inr (Some (LobbyPanel (player_count view) [(''start_game'', True)]))
      | game_over \<Rightarrow> Inr (Some (GameOverPanel (winner_team view)))
      | swap_choice \<Rightarrow> Inr (Some SwapChoiceElement)
      | loss_choice \<Rightarrow> Inr (Some LossChoiceElement)
      | challenge_window \<Rightarrow> Inr (challenge_window_panel view y)
      | block_window \<Rightarrow> Inr (block_window_panel view y)
      | action_selection \<Rightarrow>
          action_selection_panel view y canAct selectedTarget targetHasCoins)"

subsection \<open>The exchange and loss panels (lines 1131--1305)\<close>

text \<open>
  Both panels own a local selection, passed here as an argument. A panel is a wait
  notice naming the chooser, or the offered cards with the flag of the confirm button.
\<close>

datatype choice_panel = WaitNotice string | ChoosePanel "string list" bool

definition toggleIndex :: "int \<Rightarrow> nat list \<Rightarrow> nat \<Rightarrow> nat list" where
  "toggleIndex mustKeep prev idx =
     (if idx \<in> set prev then filter (\<lambda>x. x \<noteq> idx) prev
      else if int (length prev) \<ge> mustKeep then prev
      else prev @ [idx])"

definition SwapChoicePanel :: "GameView \<Rightarrow> PublicPlayer \<Rightarrow> nat list \<Rightarrow> choice_panel" where
  "SwapChoicePanel view y selected =
     (let isYouChoosing = (current_player view = Some (player_id y));
          cs = (case exchange_cards view of None \<Rightarrow> [] | Some c \<Rightarrow> c);
          mustKeep = num_cards y
      in if \<not> isYouChoosing then
           WaitNotice
             (case player_at view (case current_player view of None \<Rightarrow> [] | Some c \<Rightarrow> c) of
                None \<Rightarrow> ''Someone'' | Some p \<Rightarrow> name p)
         else ChoosePanel cs (\<not> (int (length selected) \<noteq> mustKeep)))"

definition LossChoicePanel ::
  "GameView \<Rightarrow> PublicPlayer \<Rightarrow> nat option \<Rightarrow> choice_panel option" where
  "LossChoicePanel view y selected =
     (let lossPlayerId = loss_choice_player_id view;
          lossPlayer = (if truthy lossPlayerId then player_at view (the lossPlayerId) else None);
          isYouChoosing = (lossPlayerId = Some (player_id y));
          cs = (case loss_choice_cards view of
                  Some c \<Rightarrow> c
                | None \<Rightarrow> (case cards y of Some c \<Rightarrow> c | None \<Rightarrow> []))
      in case lossPlayer of
           None \<Rightarrow> None
         | Some lp \<Rightarrow>
             if \<not> isYouChoosing then Some (WaitNotice (name lp))
             else Some (ChoosePanel cs (\<not> (selected = None))))"

section \<open>GameLayout (GameLayout.tsx, lines 29--294)\<close>

text \<open>
  One render of the component, from the snapshot and the local selection. Line 41 looks
  the viewer up and line 57 reads \<^verbatim>\<open>you.player_id\<close>: with no entry for the viewer
  the render raises before anything is derived.
\<close>

record layout =
  rotatedIds :: "string list"
  seats :: "PublicPlayer list"
  currentActionSummary :: "string option"
  action_panel :: "panel option"

definition canAct_of :: "GameView \<Rightarrow> bool" where
  "canAct_of view =
     (let isGameOver = (phase view = game_over);
          isYourTurn = (current_player view = Some (you view))
      in phase view = action_selection \<and> isYourTurn \<and> \<not> isGameOver)"

definition targetHasCoins_of :: "GameView \<Rightarrow> string option \<Rightarrow> bool" where
  "targetHasCoins_of view selectedTarget =
     (case guarded_player view selectedTarget of
        None \<Rightarrow> False
      | Some selectedTargetPlayer \<Rightarrow> coins selectedTargetPlayer > 0)"

definition GameLayout :: "GameView \<Rightarrow> string option \<Rightarrow> error + layout" where
  "GameLayout view selectedTarget =
     (case player_at view (you view) of
        None \<Rightarrow> Inl TypeError
      | Some y \<Rightarrow>
          (let ids = rotate_seats (turn_order view) (player_id y)
           in case ActionPanel view y (canAct_of view) selectedTarget
                     (targetHasCoins_of view selectedTarget) of
                Inl e \<Rightarrow> Inl e
              | Inr p \<Rightarrow>
                  Inr \<lparr>rotatedIds = ids, seats = seats_of view ids,
                       currentActionSummary = buildCurrentActionSummary view,
                       action_panel = p\<rparr>))"

text \<open>The controls of a render; a render that raised or returned null shows none.\<close>

definition rendered_controls :: "error + layout \<Rightarrow> control list" where
  "rendered_controls r =
     (case r of
        Inl e \<Rightarrow> []
      | Inr l \<Rightarrow> (case action_panel l of None \<Rightarrow> [] | Some p \<Rightarrow> controls p))"

definition offered :: "string \<Rightarrow> error + layout \<Rightarrow> bool" where
  "offered c r = (c \<in> set (map fst (rendered_controls r)))"

definition enabled :: "string \<Rightarrow> error + layout \<Rightarrow> bool" where
  "enabled c r = ((c, True) \<in> set (rendered_controls r))"

text \<open>An info-only notice: a panel is rendered and it carries no control.\<close>

definition info_only :: "error + layout \<Rightarrow> bool" where
  "info_only r =
     (case r of
        Inl e \<Rightarrow> False
      | Inr l \<Rightarrow> (case action_panel l of None \<Rightarrow> False | Some p \<Rightarrow> controls p = []))"

section \<open>Target selection controller (GameLayout.tsx, lines 45 and 70--103)\<close>

definition targetRequiredActions :: "string list" where
  "targetRequiredActions =
     [''coup'', ''assassinate'', ''super_assassinate'', ''steal'', ''super_steal'', ''super_coup'']"

text \<open>
  \<^verbatim>\<open>selectOrUseTarget\<close> returns the command handed to \<^verbatim>\<open>onAction\<close> (none on the
  early return) and the new selection.
\<close>

definition selectOrUseTarget ::
  "string \<Rightarrow> string option \<Rightarrow> (string \<times> string option) option \<times> string option" where
  "selectOrUseTarget a selectedTarget =
     (if a \<in> set targetRequiredActions then
        (if \<not> truthy selectedTarget then (None, selectedTarget)
         else (Some (a, selectedTarget), None))
      else (Some (a, None), selectedTarget))"

definition handleSeatClick :: "PublicPlayer \<Rightarrow> PublicPlayer \<Rightarrow> string option \<Rightarrow> string option" where
  "handleSeatClick y player prev =
     (if \<not> alive player then prev
      else if team player = team y then prev
      else if player_id player = player_id y then prev
      else if prev = Some (player_id player) then None
      else Some (player_id player))"

text \<open>
  The mounted component: the snapshot it was last given and its \<^verbatim>\<open>useState\<close> cell.
  A new snapshot re-renders it with the cell as it is (no effect of the component
  writes the cell); a click on a seat runs \<^verbatim>\<open>handleSeatClick\<close> on a rendered seat; a
  click on an action button runs \<^verbatim>\<open>selectOrUseTarget\<close> when the button is enabled.
\<close>

record ui_state =
  ui_view :: GameView
  selectedTarget :: "string option"

datatype ui_event = Snapshot GameView | SeatClick PublicPlayer | ActionClick string

fun ui_step :: "ui_state \<Rightarrow> ui_event \<Rightarrow> ui_state" where
  "ui_step s (Snapshot v) = s\<lparr>ui_view := v\<rparr>"
| "ui_step s (SeatClick p) =
     (case GameLayout (ui_view s) (selectedTarget s) of
        Inl e \<Rightarrow> s
      | Inr l \<Rightarrow>
          if p \<in> set (seats l)
          then s\<lparr>selectedTarget :=
                    handleSeatClick (the (player_at (ui_view s) (you (ui_view s)))) p
                      (selectedTarget s)\<rparr>
          else s)"
| "ui_step s (ActionClick a) =
     (if enabled a (GameLayout (ui_view s) (selectedTarget s))
      then s\<lparr>selectedTarget := snd (selectOrUseTarget a (selectedTarget s))\<rparr>
      else s)"

text \<open>The command an enabled action button sends.\<close>

definition dispatched :: "ui_state \<Rightarrow> string \<Rightarrow> (string \<times> string option) option" where
  "dispatched s a =
     (if enabled a (GameLayout (ui_view s) (selectedTarget s))
      then fst (selectOrUseTarget a (selectedTarget s)) else None)"

section \<open>Poll session (App.tsx, lines 19 and 34--54)\<close>

text \<open>
  The effect's closure: the \<^verbatim>\<open>cancel\<close> flag, the calls of \<^verbatim>\<open>fetchState\<close> that have
  not settled, the delays of the pending \<^verbatim>\<open>setTimeout(loop, ...)\<close> calls, and the
  \<^verbatim>\<open>view\<close> cell of App that \<^verbatim>\<open>setView\<close> writes. \<^verbatim>\<open>loop\<close> is split at its
  \<^verbatim>\<open>await\<close>: \<open>loop_call\<close> runs up to it, \<open>loop_resume\<close> runs from the settlement
  (\<open>Some v\<close> a response, \<open>None\<close> a rejection) to the end.
\<close>

definition POLL_MS :: nat where
  "POLL_MS = 1200"

record poll_state =
  cancel :: bool
  in_flight :: nat
  timers :: "nat list"
  held_view :: "GameView option"

definition loop_call :: "poll_state \<Rightarrow> poll_state" where
  "loop_call s = s\<lparr>in_flight := in_flight s + 1\<rparr>"

definition loop_resume :: "GameView option \<Rightarrow> poll_state \<Rightarrow> poll_state" where
  "loop_resume r s =
     (let s1 = s\<lparr>in_flight := in_flight s - 1\<rparr>;
          s2 = (case r of
                  Some v \<Rightarrow> if \<not> cancel s1 then s1\<lparr>held_view := Some v\<rparr> else s1
                | None \<Rightarrow> s1)
      in if \<not> cancel s2 then s2\<lparr>timers := timers s2 @ [POLL_MS]\<rparr> else s2)"

text \<open>The effect body with a token: \<^verbatim>\<open>let cancel = false; ...; loop()\<close>.\<close>

definition poll_start :: "GameView option \<Rightarrow> poll_state" where
  "poll_start v = loop_call \<lparr>cancel = False, in_flight = 0, timers = [], held_view = v\<rparr>"

text \<open>
  What the event loop can deliver to the session: the settlement of an outstanding
  fetch, the expiry of a pending timer, and the effect's cleanup (\<open>Stop\<close>). An event that
  is not possible in a state leaves it as it is.
\<close>

datatype poll_event = FetchOk GameView | FetchFail | TimerFire | Stop

fun poll_step :: "poll_state \<Rightarrow> poll_event \<Rightarrow> poll_state" where
  "poll_step s (FetchOk v) = (if in_flight s = 0 then s else loop_resume (Some v) s)"
| "poll_step s FetchFail = (if in_flight s = 0 then s else loop_resume None s)"
| "poll_step s TimerFire =
     (case timers s of [] \<Rightarrow> s | t # ts \<Rightarrow> loop_call (s\<lparr>timers := ts\<rparr>))"
| "poll_step s Stop = s\<lparr>cancel := True\<rparr>"

definition poll_run :: "poll_state \<Rightarrow> poll_event list \<Rightarrow> poll_state" where
  "poll_run s es = foldl poll_step s es"

section \<open>A sample table\<close>

text \<open>
  Four seats, two per team, used to run the definitions on concrete snapshots: Ann
  (\<open>p1\<close>, team A, 7 coins, two cards), Bob (\<open>p2\<close>, team B, 2 coins, two cards), Cyd
  (\<open>p3\<close>, team A, no coins, one card) and Dan (\<open>p4\<close>, team B, 3 coins, eliminated).
\<close>

definition ann :: PublicPlayer where
  "ann = \<lparr>player_id = ''p1'', name = ''Ann'', team = A, coins = 7, alive = True,
          num_cards = 2, cards = None\<rparr>"

definition bob :: PublicPlayer where
  "bob = \<lparr>player_id = ''p2'', name = ''Bob'', team = B, coins = 2, alive = True,
          num_cards = 2, cards = None\<rparr>"

definition cyd :: PublicPlayer where
  "cyd = \<lparr>player_id = ''p3'', name = ''Cyd'', team = A, coins = 0, alive = True,
          num_cards = 1, cards = None\<rparr>"

definition dan :: PublicPlayer where
  "dan = \<lparr>player_id = ''p4'', name = ''Dan'', team = B, coins = 3, alive = False,
          num_cards = 0, cards = None\<rparr>"

text \<open>The snapshot as seen from seat \<open>viewer\<close> in phase \<open>ph\<close> and mode \<open>m\<close>.\<close>

definition table_view ::
  "GameMode \<Rightarrow> GamePhase \<Rightarrow> string \<Rightarrow> PublicAction option \<Rightarrow> PublicBlock option \<Rightarrow> GameView" where
  "table_view m ph viewer pa pb =
     \<lparr>game_id = ''g1'', mode = m, phase = ph, you = viewer,
      current_player = Some ''p1'',
      turn_order = [''p1'', ''p2'', ''p3'', ''p4''],
      players = [(''p1'', ann), (''p2'', bob), (''p3'', cyd), (''p4'', dan)],
      winner_team = None, logs = [],
      pending_action = pa, pending_block = pb,
      exchange_pool_size = 0, exchange_cards = None,
      loss_choice_player_id = None, loss_choice_cards = None,
      deck_size = 7, revealed_cards = []\<rparr>"

section \<open>Seat rotation\<close>

lemma indexOf_notin: "x \<notin> set xs \<Longrightarrow> indexOf xs x = - 1"
  by (induction xs) (auto simp: Let_def)

lemma indexOf_first:
  "i < length xs \<Longrightarrow> xs ! i = x \<Longrightarrow> x \<notin> set (take i xs) \<Longrightarrow> indexOf xs x = int i"
proof (induction xs arbitrary: i)
  case Nil
  then show ?case by simp
next
  case (Cons y ys)
  show ?case
  proof (cases i)
    case 0
    with Cons.prems show ?thesis by simp
  next
    case (Suc j)
    with Cons.prems have "j < length ys" "ys ! j = x" "x \<notin> set (take j ys)" "y \<noteq> x"
      by auto
    with Cons.IH [of j] Suc show ?thesis by (simp add: Let_def)
  qed
qed

lemma nth_not_in_take:
  "distinct xs \<Longrightarrow> i < length xs \<Longrightarrow> xs ! i \<notin> set (take i xs)"
  by (auto simp: in_set_conv_nth distinct_conv_nth)

text \<open>
  With repeated ids \<^verbatim>\<open>indexOf\<close> finds the first occurrence, so the rotation is by the
  first index at which the viewer sits.
\<close>

lemma rotate_seats_first:
  assumes "i < length xs" "xs ! i = x" "x \<notin> set (take i xs)"
  shows "rotate_seats xs x = rotate i xs"
proof -
  have "indexOf xs x = int i" using assms by (rule indexOf_first)
  moreover have "rotate i xs = drop i xs @ take i xs"
    using assms(1) by (simp add: rotate_drop_take)
  ultimately show ?thesis by (simp add: rotate_seats_def)
qed

text \<open>
  C8. For a turn order of distinct ids with the viewer at index \<open>i\<close>, seat rotation
  returns the order rotated left by \<open>i\<close>: the viewer comes first, the length is kept
  and position \<open>k\<close> holds the seat that was at \<open>(i + k) mod N\<close>, so cyclic adjacency is
  preserved. When the viewer id does not occur in the order, the order is returned as
  it is. The function is total: no input makes it fail.
\<close>

theorem seat_rotation:
  "(distinct order \<and> i < length order \<and> order ! i = viewer \<longrightarrow>
      rotate_seats order viewer = rotate i order
      \<and> hd (rotate_seats order viewer) = viewer
      \<and> length (rotate_seats order viewer) = length order
      \<and> (\<forall>k < length order.
            rotate_seats order viewer ! k = order ! ((i + k) mod length order)))
   \<and> (viewer \<notin> set order \<longrightarrow> rotate_seats order viewer = order)"
proof (intro conjI impI)
  assume h: "distinct order \<and> i < length order \<and> order ! i = viewer"
  then have "viewer \<notin> set (take i order)" using nth_not_in_take by blast
  with h have eq: "rotate_seats order viewer = rotate i order"
    by (simp add: rotate_seats_first)
  show "rotate_seats order viewer = rotate i order" by (rule eq)
  from h have ne: "order \<noteq> []" by auto
  show "hd (rotate_seats order viewer) = viewer"
    using h ne by (simp add: eq hd_rotate_conv_nth)
  show "length (rotate_seats order viewer) = length order" by (simp add: eq)
  show "\<forall>k < length order. rotate_seats order viewer ! k = order ! ((i + k) mod length order)"
    by (simp add: eq nth_rotate)
next
  assume "viewer \<notin> set order"
  then show "rotate_seats order viewer = order"
    by (simp add: rotate_seats_def indexOf_notin)
qed

theorem seat_rotation_witness:
  "rotate_seats [''p1'', ''p2'', ''p3'', ''p4''] ''p3'' = [''p3'', ''p4'', ''p1'', ''p2'']
   \<and> rotate_seats [''p1'', ''p2'', ''p3'', ''p4''] ''p9'' = [''p1'', ''p2'', ''p3'', ''p4'']"
  using seat_rotation [of "[''p1'', ''p2'', ''p3'', ''p4'']" 2 "''p3''"]
        seat_rotation [of "[''p1'', ''p2'', ''p3'', ''p4'']" 0 "''p9''"]
  by (simp add: rotate_def rotate1_def numeral_2_eq_2)

section \<open>The render by phase\<close>

lemmas sample_defs = table_view_def ann_def bob_def cyd_def dan_def player_at_def

lemma panel_of_GameLayout:
  assumes "player_at view (you view) = Some y"
  shows "GameLayout view sel =
     (case ActionPanel view y (canAct_of view) sel (targetHasCoins_of view sel) of
        Inl e \<Rightarrow> Inl e
      | Inr p \<Rightarrow> Inr \<lparr>rotatedIds = rotate_seats (turn_order view) (player_id y),
                     seats = seats_of view (rotate_seats (turn_order view) (player_id y)),
                     currentActionSummary = buildCurrentActionSummary view,
                     action_panel = p\<rparr>)"
  using assms by (simp add: GameLayout_def Let_def)

lemma rendered_controls_block:
  assumes "phase view = block_window" "player_at view (you view) = Some y"
  shows "rendered_controls (GameLayout view sel) =
           (case block_window_panel view y of None \<Rightarrow> [] | Some p \<Rightarrow> controls p)"
  using assms by (simp add: panel_of_GameLayout ActionPanel_def rendered_controls_def)

lemma info_only_block:
  assumes "phase view = block_window" "player_at view (you view) = Some y"
  shows "info_only (GameLayout view sel) =
           (case block_window_panel view y of None \<Rightarrow> False | Some p \<Rightarrow> controls p = [])"
  using assms by (simp add: panel_of_GameLayout ActionPanel_def info_only_def)

lemma rendered_controls_challenge:
  assumes "phase view = challenge_window" "player_at view (you view) = Some y"
  shows "rendered_controls (GameLayout view sel) =
           (case challenge_window_panel view y of None \<Rightarrow> [] | Some p \<Rightarrow> controls p)"
  using assms by (simp add: panel_of_GameLayout ActionPanel_def rendered_controls_def)

lemma rendered_controls_lobby:
  assumes "phase view = lobby" "player_at view (you view) = Some y"
  shows "rendered_controls (GameLayout view sel) = [(''start_game'', True)]"
  using assms by (simp add: panel_of_GameLayout ActionPanel_def rendered_controls_def)

section \<open>Lobby\<close>

text \<open>
  C3, as the code has it. The "Start game" button of the lobby panel carries no
  \<^verbatim>\<open>disabled\<close> attribute: it is enabled for every number of players in the snapshot,
  4 and 6 included, and the panel only prints the count beside "Need 4 or 6".
\<close>

theorem lobby_start_always_enabled:
  assumes "phase view = lobby" "player_at view (you view) = Some y"
  shows "enabled ''start_game'' (GameLayout view sel)"
  using assms by (simp add: enabled_def rendered_controls_lobby)

theorem lobby_start_always_enabled_witness:
  "enabled ''start_game''
     (GameLayout ((table_view normal_team lobby ''p1'' None None)
                    \<lparr>players := [(''p1'', ann), (''p2'', bob), (''p3'', cyd)]\<rparr>) None)"
  using lobby_start_always_enabled
          [of "(table_view normal_team lobby ''p1'' None None)
                 \<lparr>players := [(''p1'', ann), (''p2'', bob), (''p3'', cyd)]\<rparr>" ann None]
  by (simp add: sample_defs)

text \<open>With three players in the lobby the button is enabled all the same.\<close>

theorem lobby_start_counterexample:
  "player_count ((table_view normal_team lobby ''p1'' None None)
                    \<lparr>players := [(''p1'', ann), (''p2'', bob), (''p3'', cyd)]\<rparr>) = 3
   \<and> enabled ''start_game''
       (GameLayout ((table_view normal_team lobby ''p1'' None None)
                      \<lparr>players := [(''p1'', ann), (''p2'', bob), (''p3'', cyd)]\<rparr>) None)"
  by (simp add: player_count_def enabled_def rendered_controls_def GameLayout_def
        ActionPanel_def sample_defs Let_def)

section \<open>Block window\<close>

text \<open>The controls of the block panel, branch by branch.\<close>

lemma block_window_controls:
  assumes "pending_action view = Some act"
  shows "(case block_window_panel view y of None \<Rightarrow> [] | Some p \<Rightarrow> controls p) =
     (if (\<exists>a. player_at view (actor_id act) = Some a \<and> team a = team y) then []
      else if action act \<in> set targetedActions \<and> target_id act \<noteq> Some (player_id y) then []
      else (if action act = ''foreign_aid'' \<and> player_at view (actor_id act) \<noteq> None
            then [(''block_foreign_aid'', True)] else [])
         @ (if (action act = ''steal'' \<or> action act = ''super_steal'')
               \<and> target_id act = Some (player_id y)
            then [(''block_steal_captain'', True), (''block_steal_ambassador'', True)] else [])
         @ (if (action act = ''assassinate'' \<or> action act = ''super_assassinate'')
               \<and> target_id act = Some (player_id y)
            then [(''block_assassinate'', True)] else [])
         @ (if mode view = super_team \<and> action act = ''coup''
               \<and> target_id act = Some (player_id y) \<and> num_cards y \<ge> 2
            then [(''block_coup'', True)] else [])
         @ [(''no_block'', True)])"
  using assms
  by (cases "player_at view (actor_id act)") (auto simp: block_window_panel_def Let_def)

lemma block_window_panel_rendered:
  "pending_action view = Some act \<Longrightarrow> block_window_panel view y \<noteq> None"
  by (simp add: block_window_panel_def Let_def)

text \<open>
  C2, as the code has it. In the block window of a super-mode game, a viewer who is the
  target of a pending \<open>coup\<close> is offered \<open>block_coup\<close> exactly when the viewer holds at
  least 2 influence cards and the actor is not a player of the viewer's team found in
  the snapshot. So a target with exactly 1 card is never offered it, and neither is the
  target of a \<open>super_coup\<close>, whatever the number of cards.
\<close>

theorem block_coup_offer:
  assumes "phase view = block_window" "mode view = super_team"
    and "player_at view (you view) = Some y"
    and "pending_action view = Some act" "target_id act = Some (player_id y)"
  shows "offered ''block_coup'' (GameLayout view sel) \<longleftrightarrow>
           action act = ''coup'' \<and> num_cards y \<ge> 2
           \<and> (\<forall>a. player_at view (actor_id act) = Some a \<longrightarrow> team a \<noteq> team y)"
  using assms
  by (auto simp: offered_def rendered_controls_block block_window_controls image_iff)

theorem block_coup_offer_witness:
  "offered ''block_coup''
       (GameLayout (table_view super_team block_window ''p1''
          (Some \<lparr>actor_id = ''p2'', action = ''coup'', target_id = Some ''p1''\<rparr>) None) None)"
  using block_coup_offer [of "table_view super_team block_window ''p1''
          (Some \<lparr>actor_id = ''p2'', action = ''coup'', target_id = Some ''p1''\<rparr>) None"
          ann "\<lparr>actor_id = ''p2'', action = ''coup'', target_id = Some ''p1''\<rparr>" None]
  by (simp add: sample_defs)

text \<open>Ann holds two cards and is the target of Bob's \<open>super_coup\<close>: no \<open>block_coup\<close>.\<close>

theorem block_coup_super_coup_counterexample:
  "\<not> offered ''block_coup''
       (GameLayout (table_view super_team block_window ''p1''
          (Some \<lparr>actor_id = ''p2'', action = ''super_coup'', target_id = Some ''p1''\<rparr>) None) None)
   \<and> num_cards ann = 2"
  by (simp add: offered_def rendered_controls_def GameLayout_def ActionPanel_def Let_def
        block_window_panel_def targetedActions_def sample_defs)

text \<open>
  The notices without controls: a viewer on the team of an actor found in the snapshot,
  and a viewer who is not the target of an action of the \<^verbatim>\<open>isTargetedAction\<close>
  list, see a sentence and no button.
\<close>

lemma block_window_info_only:
  assumes "phase view = block_window" "player_at view (you view) = Some y"
    and "pending_action view = Some act"
    and "(\<exists>a. player_at view (actor_id act) = Some a \<and> team a = team y)
         \<or> (action act \<in> set targetedActions \<and> target_id act \<noteq> Some (player_id y))"
  shows "info_only (GameLayout view sel)"
proof -
  from assms(3) obtain p where p: "block_window_panel view y = Some p"
    using block_window_panel_rendered by blast
  with block_window_controls [OF assms(3), of y] assms(4) have "controls p = []"
    by (auto split: if_splits)
  with p assms(1,2) show ?thesis by (simp add: info_only_block)
qed

text \<open>
  C6 at a pending \<open>super_coup\<close>. Bob's \<open>super_coup\<close> targets Ann and the viewer is Cyd,
  who is neither the target nor on Bob's team: the panel is not info-only, it carries the
  "Let it through" control. \<open>super_coup\<close> is in \<^verbatim>\<open>targetRequiredActions\<close> and missing
  from the \<^verbatim>\<open>isTargetedAction\<close> list.
\<close>

theorem super_coup_bystander_pass:
  "offered ''no_block''
     (GameLayout (table_view super_team block_window ''p3''
        (Some \<lparr>actor_id = ''p2'', action = ''super_coup'', target_id = Some ''p1''\<rparr>) None) None)
   \<and> \<not> info_only
     (GameLayout (table_view super_team block_window ''p3''
        (Some \<lparr>actor_id = ''p2'', action = ''super_coup'', target_id = Some ''p1''\<rparr>) None) None)
   \<and> ''super_coup'' \<in> set targetRequiredActions
   \<and> ''super_coup'' \<notin> set targetedActions"
  by (simp add: offered_def info_only_def rendered_controls_def GameLayout_def ActionPanel_def
        Let_def block_window_panel_def targetedActions_def targetRequiredActions_def sample_defs)

lemma block_window_panel_alive:
  "block_window_panel view (y\<lparr>alive := b\<rparr>) = block_window_panel view y"
  by (simp add: block_window_panel_def targetNameForViewer_def
        cong: option.case_cong if_cong split del: if_split)

section \<open>Challenge window\<close>

lemma challenge_render_controls:
  "controls (challenge_render t c) =
     (if c then [(''challenge'', True), (''no_challenge'', True)] else [])"
  by (simp add: challenge_render_def)

lemma challenge_window_controls:
  assumes "pending_action view = Some pa" "player_at view (actor_id pa) = Some actor"
    and "(pending_block view = None \<and> claimant = actor)
         \<or> (pending_block view = Some pb \<and> player_at view (blocker_id pb) = Some claimant)"
  shows "(case challenge_window_panel view y of None \<Rightarrow> [] | Some p \<Rightarrow> controls p) =
     (if player_id claimant \<noteq> player_id y \<and> team claimant \<noteq> team y \<and> alive y
      then [(''challenge'', True), (''no_challenge'', True)] else [])"
  using assms
  by (auto simp: challenge_window_panel_def Let_def challenge_render_controls)

text \<open>
  C10. In the block window a viewer who is not on the team of the actor of a pending
  \<open>foreign_aid\<close> is offered "Block Foreign Aid" and "Let it through" whether alive or
  not: the block panel does not depend on the viewer's \<open>alive\<close> field. In the challenge
  window a dead viewer is never offered the challenge control.
\<close>

theorem block_window_ignores_alive:
  assumes "phase view = block_window" "player_at view (you view) = Some y"
    and "pending_action view = Some act" "action act = ''foreign_aid''"
    and "player_at view (actor_id act) = Some a" "team a \<noteq> team y"
  shows "offered ''block_foreign_aid'' (GameLayout view sel)
         \<and> offered ''no_block'' (GameLayout view sel)
         \<and> block_window_panel view (y\<lparr>alive := False\<rparr>) = block_window_panel view y
         \<and> (\<forall>view' y'. phase view' = challenge_window \<and> player_at view' (you view') = Some y'
               \<and> \<not> alive y' \<longrightarrow> \<not> offered ''challenge'' (GameLayout view' sel))"
proof -
  have 1: "offered ''block_foreign_aid'' (GameLayout view sel)"
    using assms
    by (simp add: offered_def rendered_controls_block block_window_controls targetedActions_def)
  have 2: "offered ''no_block'' (GameLayout view sel)"
    using assms
    by (simp add: offered_def rendered_controls_block block_window_controls targetedActions_def)
  have 3: "\<not> offered ''challenge'' (GameLayout view' sel)"
    if "phase view' = challenge_window" "player_at view' (you view') = Some y'" "\<not> alive y'"
    for view' y'
    using that
    by (auto simp: offered_def rendered_controls_challenge challenge_window_panel_def Let_def
          challenge_render_controls split: option.splits)
  from 1 2 3 show ?thesis by (simp add: block_window_panel_alive)
qed

theorem block_window_ignores_alive_witness:
  "\<not> alive dan
   \<and> offered ''block_foreign_aid''
       (GameLayout (table_view normal_team block_window ''p4''
          (Some \<lparr>actor_id = ''p1'', action = ''foreign_aid'', target_id = None\<rparr>) None) None)
   \<and> offered ''no_block''
       (GameLayout (table_view normal_team block_window ''p4''
          (Some \<lparr>actor_id = ''p1'', action = ''foreign_aid'', target_id = None\<rparr>) None) None)
   \<and> \<not> offered ''challenge''
       (GameLayout (table_view normal_team challenge_window ''p4''
          (Some \<lparr>actor_id = ''p1'', action = ''tax'', target_id = None\<rparr>) None) None)"
  using block_window_ignores_alive [of "table_view normal_team block_window ''p4''
          (Some \<lparr>actor_id = ''p1'', action = ''foreign_aid'', target_id = None\<rparr>) None"
          dan "\<lparr>actor_id = ''p1'', action = ''foreign_aid'', target_id = None\<rparr>" ann None]
  by (simp add: sample_defs)

text \<open>
  C7. In the challenge window of a snapshot whose pending action and its actor are
  present, the claimant is the blocker when a block is pending (and found) and the
  actor otherwise. The viewer is offered the challenge control, and with it the pass
  control, exactly when the viewer is not the claimant, is not on the claimant's team
  and is alive; both controls are then enabled.
\<close>

theorem challenge_window_eligibility:
  assumes "phase view = challenge_window" "player_at view (you view) = Some y"
    and "pending_action view = Some pa" "player_at view (actor_id pa) = Some actor"
    and "(pending_block view = None \<and> claimant = actor)
         \<or> (pending_block view = Some pb \<and> player_at view (blocker_id pb) = Some claimant)"
  shows "(offered ''challenge'' (GameLayout view sel) \<longleftrightarrow>
            player_id claimant \<noteq> player_id y \<and> team claimant \<noteq> team y \<and> alive y)
         \<and> (offered ''no_challenge'' (GameLayout view sel) \<longleftrightarrow>
            player_id claimant \<noteq> player_id y \<and> team claimant \<noteq> team y \<and> alive y)
         \<and> (offered ''challenge'' (GameLayout view sel) \<longrightarrow>
            enabled ''challenge'' (GameLayout view sel)
            \<and> enabled ''no_challenge'' (GameLayout view sel))"
  using assms(1,2) challenge_window_controls [OF assms(3,4,5), of y]
  by (auto simp: offered_def enabled_def rendered_controls_challenge image_iff)

theorem challenge_window_eligibility_witness:
  "offered ''challenge''
     (GameLayout (table_view normal_team challenge_window ''p2''
        (Some \<lparr>actor_id = ''p2'', action = ''steal'', target_id = Some ''p1''\<rparr>)
        (Some \<lparr>blocker_id = ''p1'', block_type = ''block_steal_captain''\<rparr>)) None)
   \<and> offered ''no_challenge''
     (GameLayout (table_view normal_team challenge_window ''p2''
        (Some \<lparr>actor_id = ''p2'', action = ''steal'', target_id = Some ''p1''\<rparr>)
        (Some \<lparr>blocker_id = ''p1'', block_type = ''block_steal_captain''\<rparr>)) None)
   \<and> \<not> offered ''challenge''
     (GameLayout (table_view normal_team challenge_window ''p1''
        (Some \<lparr>actor_id = ''p2'', action = ''steal'', target_id = Some ''p1''\<rparr>)
        (Some \<lparr>blocker_id = ''p1'', block_type = ''block_steal_captain''\<rparr>)) None)
   \<and> \<not> offered ''challenge''
     (GameLayout (table_view normal_team challenge_window ''p3''
        (Some \<lparr>actor_id = ''p2'', action = ''steal'', target_id = Some ''p1''\<rparr>)
        (Some \<lparr>blocker_id = ''p1'', block_type = ''block_steal_captain''\<rparr>)) None)
   \<and> offered ''challenge''
     (GameLayout (table_view normal_team challenge_window ''p1''
        (Some \<lparr>actor_id = ''p2'', action = ''tax'', target_id = None\<rparr>) None) None)"
  using
    challenge_window_eligibility [of "table_view normal_team challenge_window ''p2''
        (Some \<lparr>actor_id = ''p2'', action = ''steal'', target_id = Some ''p1''\<rparr>)
        (Some \<lparr>blocker_id = ''p1'', block_type = ''block_steal_captain''\<rparr>)"
      bob "\<lparr>actor_id = ''p2'', action = ''steal'', target_id = Some ''p1''\<rparr>" bob ann
      "\<lparr>blocker_id = ''p1'', block_type = ''block_steal_captain''\<rparr>" None]
    challenge_window_eligibility [of "table_view normal_team challenge_window ''p1''
        (Some \<lparr>actor_id = ''p2'', action = ''steal'', target_id = Some ''p1''\<rparr>)
        (Some \<lparr>blocker_id = ''p1'', block_type = ''block_steal_captain''\<rparr>)"
      ann "\<lparr>actor_id = ''p2'', action = ''steal'', target_id = Some ''p1''\<rparr>" bob ann
      "\<lparr>blocker_id = ''p1'', block_type = ''block_steal_captain''\<rparr>" None]
    challenge_window_eligibility [of "table_view normal_team challenge_window ''p3''
        (Some \<lparr>actor_id = ''p2'', action = ''steal'', target_id = Some ''p1''\<rparr>)
        (Some \<lparr>blocker_id = ''p1'', block_type = ''block_steal_captain''\<rparr>)"
      cyd "\<lparr>actor_id = ''p2'', action = ''steal'', target_id = Some ''p1''\<rparr>" bob ann
      "\<lparr>blocker_id = ''p1'', block_type = ''block_steal_captain''\<rparr>" None]
    challenge_window_eligibility [of "table_view normal_team challenge_window ''p1''
        (Some \<lparr>actor_id = ''p2'', action = ''tax'', target_id = None\<rparr>) None"
      ann "\<lparr>actor_id = ''p2'', action = ''tax'', target_id = None\<rparr>" bob bob
      "\<lparr>blocker_id = ''p1'', block_type = ''block_steal_captain''\<rparr>" None]
  by (simp add: sample_defs)

section \<open>Poll session\<close>

text \<open>At most one of "a fetch is outstanding" and "a timer is pending" holds.\<close>

lemma loop_resume_bound:
  assumes "in_flight s + length (timers s) \<le> 1" "in_flight s \<noteq> 0"
  shows "in_flight (loop_resume r s) + length (timers (loop_resume r s)) \<le> 1"
proof -
  from assms have "in_flight s = 1" and "length (timers s) = 0" by arith+
  then have "in_flight s = 1" and "timers s = []" by simp_all
  then show ?thesis by (simp add: loop_resume_def Let_def split: option.splits)
qed

lemma poll_step_bound:
  assumes "in_flight s + length (timers s) \<le> 1"
  shows "in_flight (poll_step s e) + length (timers (poll_step s e)) \<le> 1"
proof (cases e)
  case (FetchOk v)
  with assms loop_resume_bound [of s "Some v"] show ?thesis by simp
next
  case FetchFail
  with assms loop_resume_bound [of s None] show ?thesis by simp
next
  case TimerFire
  with assms show ?thesis by (cases "timers s") (simp_all add: loop_call_def)
next
  case Stop
  with assms show ?thesis by simp
qed

lemma poll_run_bound:
  "in_flight s + length (timers s) \<le> 1 \<Longrightarrow>
   in_flight (poll_run s es) + length (timers (poll_run s es)) \<le> 1"
  unfolding poll_run_def
proof (induction es arbitrary: s)
  case Nil
  then show ?case by simp
next
  case (Cons e es)
  from Cons.IH [OF poll_step_bound [OF Cons.prems, of e]] show ?case by simp
qed

lemma poll_start_bound: "in_flight (poll_start v) + length (timers (poll_start v)) \<le> 1"
  by (simp add: poll_start_def loop_call_def)

text \<open>Once \<^verbatim>\<open>cancel\<close> is set, nothing is committed and no timer is added.\<close>

lemma loop_resume_cancelled:
  "cancel s \<Longrightarrow> loop_resume r s = s\<lparr>in_flight := in_flight s - 1\<rparr>"
  by (simp add: loop_resume_def Let_def split: option.splits)

lemma poll_step_cancelled:
  assumes "cancel s"
  shows "cancel (poll_step s e) \<and> held_view (poll_step s e) = held_view s
         \<and> (\<exists>n. timers (poll_step s e) = drop n (timers s))"
proof -
  have "cancel (poll_step s e) \<and> held_view (poll_step s e) = held_view s"
    using assms
    by (cases e) (simp_all add: loop_resume_cancelled loop_call_def split: list.splits)
  moreover have "timers (poll_step s e) = drop (if e = TimerFire then 1 else 0) (timers s)"
    using assms
    by (cases e) (simp_all add: loop_resume_cancelled loop_call_def drop_Suc split: list.splits)
  ultimately show ?thesis by blast
qed

lemma poll_run_cancelled:
  "cancel s \<Longrightarrow>
   cancel (poll_run s es) \<and> held_view (poll_run s es) = held_view s
   \<and> (\<exists>n. timers (poll_run s es) = drop n (timers s))"
  unfolding poll_run_def
proof (induction es arbitrary: s)
  case Nil
  then show ?case by (auto intro: exI[of _ 0])
next
  case (Cons e es)
  from poll_step_cancelled [OF Cons.prems, of e]
  obtain n where c: "cancel (poll_step s e)" and v: "held_view (poll_step s e) = held_view s"
    and t: "timers (poll_step s e) = drop n (timers s)" by blast
  from Cons.IH [OF c] obtain m where
    "cancel (foldl poll_step (poll_step s e) es)"
    "held_view (foldl poll_step (poll_step s e) es) = held_view (poll_step s e)"
    "timers (foldl poll_step (poll_step s e) es) = drop m (timers (poll_step s e))" by blast
  with v t show ?case by (auto intro: exI[of _ "m + n"] simp: add.commute)
qed

text \<open>
  C9. Take any state the session reaches from its start, stop it there, and let any
  events follow: the held view stays what it was at the stop (a response that settles
  later is discarded) and the pending timers only shrink (no \<^verbatim>\<open>setTimeout\<close> is
  called). In every reachable state at most one fetch is outstanding, and none is
  started while one is: no timer is pending then. Before the stop, a failed fetch
  changes nothing but to schedule \<^verbatim>\<open>loop\<close> after \<open>POLL_MS\<close>, the delay also used
  after a success.
\<close>

theorem poll_session:
  "held_view (poll_run (poll_step (poll_run (poll_start v0) es) Stop) es')
     = held_view (poll_run (poll_start v0) es)
   \<and> (\<exists>n. timers (poll_run (poll_step (poll_run (poll_start v0) es) Stop) es')
           = drop n (timers (poll_run (poll_start v0) es)))
   \<and> in_flight (poll_run (poll_start v0) es) \<le> 1
   \<and> (in_flight (poll_run (poll_start v0) es) \<noteq> 0 \<longrightarrow>
        timers (poll_run (poll_start v0) es) = [])
   \<and> (\<not> cancel (poll_run (poll_start v0) es) \<and> in_flight (poll_run (poll_start v0) es) \<noteq> 0 \<longrightarrow>
        poll_step (poll_run (poll_start v0) es) FetchFail
          = (poll_run (poll_start v0) es)\<lparr>in_flight := 0, timers := [POLL_MS]\<rparr>
        \<and> poll_step (poll_run (poll_start v0) es) (FetchOk v)
          = (poll_run (poll_start v0) es)\<lparr>in_flight := 0, held_view := Some v, timers := [POLL_MS]\<rparr>)"
proof -
  define s where "s = poll_run (poll_start v0) es"
  have b: "in_flight s + length (timers s) \<le> 1"
    unfolding s_def by (rule poll_run_bound [OF poll_start_bound])
  have c: "cancel (poll_step s Stop)" by simp
  from poll_run_cancelled [OF c, of es']
  have 1: "held_view (poll_run (poll_step s Stop) es') = held_view s"
    and 2: "\<exists>n. timers (poll_run (poll_step s Stop) es') = drop n (timers s)"
    by simp_all
  from b have 3: "in_flight s \<le> 1" by simp
  have 4: "timers s = []" if "in_flight s \<noteq> 0"
  proof -
    from b that have "length (timers s) = 0" by arith
    then show ?thesis by simp
  qed
  have 5: "poll_step s FetchFail = s\<lparr>in_flight := 0, timers := [POLL_MS]\<rparr>
           \<and> poll_step s (FetchOk v) = s\<lparr>in_flight := 0, held_view := Some v, timers := [POLL_MS]\<rparr>"
    if "\<not> cancel s" "in_flight s \<noteq> 0"
  proof -
    from b that have "in_flight s = 1" by arith
    with that 4 show ?thesis by (simp add: loop_resume_def Let_def)
  qed
  from 1 2 3 4 5 show ?thesis unfolding s_def by blast
qed

theorem poll_session_witness:
  "held_view (poll_run (poll_step (poll_start None) Stop)
       [FetchOk (table_view normal_team lobby ''p1'' None None), TimerFire, FetchFail]) = None
   \<and> poll_step (poll_start None) FetchFail
       = \<lparr>cancel = False, in_flight = 0, timers = [1200], held_view = None\<rparr>
   \<and> poll_step (poll_start None) (FetchOk (table_view normal_team lobby ''p1'' None None))
       = \<lparr>cancel = False, in_flight = 0, timers = [1200],
          held_view = Some (table_view normal_team lobby ''p1'' None None)\<rparr>"
  using poll_session [of None "[]"
      "[FetchOk (table_view normal_team lobby ''p1'' None None), TimerFire, FetchFail]"
      "table_view normal_team lobby ''p1'' None None"]
  by (simp add: poll_run_def poll_start_def loop_call_def POLL_MS_def)

section \<open>Action selection\<close>

text \<open>
  The buttons of the action grid when the render does not raise, each with the
  conjunction that enables it.
\<close>

lemma rendered_controls_action:
  assumes "phase view = action_selection" "player_at view (you view) = Some y"
    and "truthy sel \<longrightarrow> player_at view (the sel) \<noteq> None"
  shows "rendered_controls (GameLayout view sel) =
     [(''income'', canAct_of view),
      (''foreign_aid'', canAct_of view),
      (''coup'', canAct_of view \<and> coins y \<ge> 7 \<and> truthy sel)]
     @ (if mode view = super_team
        then [(''super_coup'', canAct_of view \<and> coins y \<ge> 12 \<and> truthy sel)] else [])
     @ [(''assassinate'', canAct_of view \<and> coins y \<ge> 3 \<and> truthy sel)]
     @ (if mode view = super_team
        then [(''super_assassinate'',
               canAct_of view \<and> coins y \<ge> 3 \<and> truthy sel \<and> num_cards y \<ge> 2)] else [])
     @ [(''steal'', canAct_of view \<and> truthy sel \<and> targetHasCoins_of view sel)]
     @ (if mode view = super_team
        then [(''super_steal'',
               canAct_of view \<and> truthy sel \<and> targetHasCoins_of view sel \<and> num_cards y \<ge> 2)]
        else [])
     @ [(''tax'', canAct_of view)]
     @ (if mode view = super_team
        then [(''super_tax'', canAct_of view \<and> num_cards y \<ge> 2)] else [])
     @ [(''exchange'', canAct_of view)]
     @ (if mode view = super_team
        then [(''super_exchange'', canAct_of view \<and> num_cards y \<ge> 2)] else [])"
  using assms
  by (auto simp: panel_of_GameLayout ActionPanel_def rendered_controls_def
        action_selection_panel_def Let_def)

lemma canAct_of_turn:
  "phase view = action_selection \<Longrightarrow> current_player view = Some (you view) \<Longrightarrow> canAct_of view"
  by (simp add: canAct_of_def)

lemma selectOrUseTarget_clears:
  "a \<in> set targetRequiredActions \<Longrightarrow> truthy sel \<Longrightarrow>
   selectOrUseTarget a sel = (Some (a, sel), None)"
  by (simp add: selectOrUseTarget_def)

lemma six_targeted:
  "a \<in> {''coup'', ''assassinate'', ''super_assassinate'', ''steal'', ''super_steal'',
         ''super_coup''} \<Longrightarrow> a \<in> set targetRequiredActions"
  by (auto simp: targetRequiredActions_def)

lemma not_your_turn_disabled:
  assumes "phase view = action_selection" "current_player view \<noteq> Some (you view)"
  shows "\<not> enabled c (GameLayout view sel)"
proof (cases "player_at view (you view)")
  case None
  then show ?thesis by (simp add: enabled_def rendered_controls_def GameLayout_def)
next
  case (Some y)
  have n: "\<not> canAct_of view" using assms(2) by (simp add: canAct_of_def)
  show ?thesis
  proof (cases "truthy sel \<longrightarrow> player_at view (the sel) \<noteq> None")
    case True
    show ?thesis
      unfolding enabled_def rendered_controls_action [OF assms(1) Some True]
      using n by simp
  next
    case False
    then have "GameLayout view sel = Inl TypeError"
      using assms(1) Some
      by (simp add: panel_of_GameLayout ActionPanel_def action_selection_panel_def)
    then show ?thesis by (simp add: enabled_def rendered_controls_def)
  qed
qed

text \<open>
  C1. In the action_selection phase with the viewer as current player (the viewer has an
  entry in \<open>players\<close>, and the selection is null or the non-empty id of a player of the
  snapshot): income, foreign_aid, tax and exchange are enabled; coup is enabled exactly
  when the viewer has at least 7 coins and a target is selected; assassinate exactly
  with at least 3 coins and a target; steal exactly when the selected target has more
  than 0 coins; super_tax and super_exchange exactly in super mode with at least 2
  cards, super_assassinate and super_steal with that and the conditions of assassinate
  and steal; super_coup exactly in super mode with at least 12 coins and a target,
  whatever the number of cards. Each of the six targeted actions (coup, assassinate,
  super_assassinate, steal, super_steal, super_coup) is disabled while nothing is
  selected, and when it is enabled its click sends the action with the selection as
  target and leaves the selection null. When the viewer is not the current player no
  control of the phase is enabled.
\<close>

theorem action_selection_eligibility:
  assumes "phase view = action_selection" "current_player view = Some (you view)"
    and "player_at view (you view) = Some y"
    and "sel = None \<or> (\<exists>t p. sel = Some t \<and> t \<noteq> [] \<and> player_at view t = Some p)"
  shows "enabled ''income'' (GameLayout view sel)
    \<and> enabled ''foreign_aid'' (GameLayout view sel)
    \<and> enabled ''tax'' (GameLayout view sel)
    \<and> enabled ''exchange'' (GameLayout view sel)
    \<and> (enabled ''coup'' (GameLayout view sel) \<longleftrightarrow> coins y \<ge> 7 \<and> sel \<noteq> None)
    \<and> (enabled ''assassinate'' (GameLayout view sel) \<longleftrightarrow> coins y \<ge> 3 \<and> sel \<noteq> None)
    \<and> (enabled ''steal'' (GameLayout view sel) \<longleftrightarrow>
           (\<exists>t p. sel = Some t \<and> player_at view t = Some p \<and> coins p > 0))
    \<and> (enabled ''super_tax'' (GameLayout view sel) \<longleftrightarrow>
           mode view = super_team \<and> num_cards y \<ge> 2)
    \<and> (enabled ''super_exchange'' (GameLayout view sel) \<longleftrightarrow>
           mode view = super_team \<and> num_cards y \<ge> 2)
    \<and> (enabled ''super_assassinate'' (GameLayout view sel) \<longleftrightarrow>
           mode view = super_team \<and> num_cards y \<ge> 2 \<and> coins y \<ge> 3 \<and> sel \<noteq> None)
    \<and> (enabled ''super_steal'' (GameLayout view sel) \<longleftrightarrow>
           mode view = super_team \<and> num_cards y \<ge> 2
           \<and> (\<exists>t p. sel = Some t \<and> player_at view t = Some p \<and> coins p > 0))
    \<and> (enabled ''super_coup'' (GameLayout view sel) \<longleftrightarrow>
           mode view = super_team \<and> coins y \<ge> 12 \<and> sel \<noteq> None)
    \<and> (\<forall>a \<in> {''coup'', ''assassinate'', ''super_assassinate'', ''steal'', ''super_steal'',
              ''super_coup''}.
          (sel = None \<longrightarrow> \<not> enabled a (GameLayout view sel))
          \<and> (enabled a (GameLayout view sel) \<longrightarrow>
               selectOrUseTarget a sel = (Some (a, sel), None)
               \<and> dispatched \<lparr>ui_view = view, selectedTarget = sel\<rparr> a = Some (a, sel)
               \<and> ui_step \<lparr>ui_view = view, selectedTarget = sel\<rparr> (ActionClick a)
                   = \<lparr>ui_view = view, selectedTarget = None\<rparr>))
    \<and> (\<forall>view' sel' c. phase view' = action_selection
            \<and> current_player view' \<noteq> Some (you view') \<longrightarrow>
          \<not> enabled c (GameLayout view' sel'))"
proof -
  have c: "canAct_of view" using assms(1,2) by (rule canAct_of_turn)
  have ok: "truthy sel \<longrightarrow> player_at view (the sel) \<noteq> None"
    using assms(4) by (auto simp: truthy_def)
  have t: "truthy sel \<longleftrightarrow> sel \<noteq> None" using assms(4) by (auto simp: truthy_def)
  have h: "targetHasCoins_of view sel \<longleftrightarrow>
             (\<exists>t p. sel = Some t \<and> player_at view t = Some p \<and> coins p > 0)"
    using assms(4) by (auto simp: targetHasCoins_of_def guarded_player_def truthy_def)
  note rc = rendered_controls_action [OF assms(1) assms(3) ok]
  have e1: "enabled ''income'' (GameLayout view sel)" by (simp add: enabled_def rc c)
  have e2: "enabled ''foreign_aid'' (GameLayout view sel)" by (simp add: enabled_def rc c)
  have e3: "enabled ''tax'' (GameLayout view sel)" by (simp add: enabled_def rc c)
  have e4: "enabled ''exchange'' (GameLayout view sel)" by (simp add: enabled_def rc c)
  have e5: "enabled ''coup'' (GameLayout view sel) \<longleftrightarrow> coins y \<ge> 7 \<and> sel \<noteq> None"
    by (simp add: enabled_def rc c t)
  have e6: "enabled ''assassinate'' (GameLayout view sel) \<longleftrightarrow> coins y \<ge> 3 \<and> sel \<noteq> None"
    by (simp add: enabled_def rc c t)
  have e7: "enabled ''steal'' (GameLayout view sel) \<longleftrightarrow>
           (\<exists>t p. sel = Some t \<and> player_at view t = Some p \<and> coins p > 0)"
    using t by (auto simp: enabled_def rc c h)
  have e8: "enabled ''super_tax'' (GameLayout view sel) \<longleftrightarrow>
           mode view = super_team \<and> num_cards y \<ge> 2"
    by (auto simp: enabled_def rc c)
  have e9: "enabled ''super_exchange'' (GameLayout view sel) \<longleftrightarrow>
           mode view = super_team \<and> num_cards y \<ge> 2"
    by (auto simp: enabled_def rc c)
  have e10: "enabled ''super_assassinate'' (GameLayout view sel) \<longleftrightarrow>
           mode view = super_team \<and> num_cards y \<ge> 2 \<and> coins y \<ge> 3 \<and> sel \<noteq> None"
    by (auto simp: enabled_def rc c t)
  have e11: "enabled ''super_steal'' (GameLayout view sel) \<longleftrightarrow>
           mode view = super_team \<and> num_cards y \<ge> 2
           \<and> (\<exists>t p. sel = Some t \<and> player_at view t = Some p \<and> coins p > 0)"
    using t by (auto simp: enabled_def rc c h)
  have e12: "enabled ''super_coup'' (GameLayout view sel) \<longleftrightarrow>
           mode view = super_team \<and> coins y \<ge> 12 \<and> sel \<noteq> None"
    by (auto simp: enabled_def rc c t)
  have e13: "\<forall>a \<in> {''coup'', ''assassinate'', ''super_assassinate'', ''steal'', ''super_steal'',
              ''super_coup''}.
          (sel = None \<longrightarrow> \<not> enabled a (GameLayout view sel))
          \<and> (enabled a (GameLayout view sel) \<longrightarrow>
               selectOrUseTarget a sel = (Some (a, sel), None)
               \<and> dispatched \<lparr>ui_view = view, selectedTarget = sel\<rparr> a = Some (a, sel)
               \<and> ui_step \<lparr>ui_view = view, selectedTarget = sel\<rparr> (ActionClick a)
                   = \<lparr>ui_view = view, selectedTarget = None\<rparr>)"
  proof (intro ballI conjI impI)
    fix a
    assume a: "a \<in> {''coup'', ''assassinate'', ''super_assassinate'', ''steal'',
                     ''super_steal'', ''super_coup''}"
    have n: "\<not> enabled a (GameLayout view sel)" if "sel = None"
      using a that e5 e6 e7 e10 e11 e12 by auto
    show "\<not> enabled a (GameLayout view sel)" if "sel = None" using that by (rule n)
    assume en: "enabled a (GameLayout view sel)"
    with n have "sel \<noteq> None" by blast
    with t have "truthy sel" by simp
    with six_targeted [OF a]
    show s: "selectOrUseTarget a sel = (Some (a, sel), None)"
      by (rule selectOrUseTarget_clears)
    from en s show "dispatched \<lparr>ui_view = view, selectedTarget = sel\<rparr> a = Some (a, sel)"
      by (simp add: dispatched_def)
    from en s show "ui_step \<lparr>ui_view = view, selectedTarget = sel\<rparr> (ActionClick a)
                   = \<lparr>ui_view = view, selectedTarget = None\<rparr>"
      by simp
  qed
  have e14: "\<forall>view' sel' c. phase view' = action_selection
            \<and> current_player view' \<noteq> Some (you view') \<longrightarrow>
          \<not> enabled c (GameLayout view' sel')"
    using not_your_turn_disabled by blast
  show ?thesis
    by (intro conjI; fact)
qed

text \<open>
  Scenario A of the specification: Ann with 7 coins and Bob selected may coup; with 6
  coins she may not. Bob has coins, so she may steal from him, and the click sends
  \<open>steal\<close> at Bob and clears the selection. Seen from Bob's seat on Ann's turn, income
  is disabled.
\<close>

theorem action_selection_eligibility_witness:
  "enabled ''coup''
     (GameLayout (table_view normal_team action_selection ''p1'' None None) (Some ''p2''))
   \<and> \<not> enabled ''coup''
        (GameLayout ((table_view normal_team action_selection ''p1'' None None)
                       \<lparr>players := [(''p1'', ann\<lparr>coins := 6\<rparr>), (''p2'', bob)]\<rparr>)
           (Some ''p2''))
   \<and> enabled ''steal''
     (GameLayout (table_view normal_team action_selection ''p1'' None None) (Some ''p2''))
   \<and> selectOrUseTarget ''steal'' (Some ''p2'') = (Some (''steal'', Some ''p2''), None)
   \<and> ui_step \<lparr>ui_view = table_view normal_team action_selection ''p1'' None None,
              selectedTarget = Some ''p2''\<rparr> (ActionClick ''steal'')
       = \<lparr>ui_view = table_view normal_team action_selection ''p1'' None None,
          selectedTarget = None\<rparr>
   \<and> \<not> enabled ''income''
        (GameLayout (table_view normal_team action_selection ''p2'' None None) None)"
proof -
  let ?v = "table_view normal_team action_selection ''p1'' None None"
  let ?w = "?v\<lparr>players := [(''p1'', ann\<lparr>coins := 6\<rparr>), (''p2'', bob)]\<rparr>"
  let ?u = "table_view normal_team action_selection ''p2'' None None"
  have v1: "phase ?v = action_selection" and v2: "current_player ?v = Some (you ?v)"
    and v3: "player_at ?v (you ?v) = Some ann"
    and v4: "Some ''p2'' = None
             \<or> (\<exists>t p. Some ''p2'' = Some t \<and> t \<noteq> [] \<and> player_at ?v t = Some p)"
    and v5: "player_at ?v ''p2'' = Some bob"
    by (simp_all add: sample_defs)
  have w1: "phase ?w = action_selection" and w2: "current_player ?w = Some (you ?w)"
    and w3: "player_at ?w (you ?w) = Some (ann\<lparr>coins := 6\<rparr>)"
    and w4: "Some ''p2'' = None
             \<or> (\<exists>t p. Some ''p2'' = Some t \<and> t \<noteq> [] \<and> player_at ?w t = Some p)"
    by (simp_all add: sample_defs)
  have u: "phase ?u = action_selection \<and> current_player ?u \<noteq> Some (you ?u)"
    by (simp add: sample_defs)
  note V = action_selection_eligibility [OF v1 v2 v3 v4]
  from V have 1: "enabled ''coup'' (GameLayout ?v (Some ''p2'')) \<longleftrightarrow>
                    coins ann \<ge> 7 \<and> Some ''p2'' \<noteq> None"
    by (elim conjE) assumption
  from action_selection_eligibility [OF w1 w2 w3 w4]
  have 2: "enabled ''coup'' (GameLayout ?w (Some ''p2'')) \<longleftrightarrow>
          coins (ann\<lparr>coins := 6\<rparr>) \<ge> 7 \<and> Some ''p2'' \<noteq> None"
    by (elim conjE) assumption
  from V have "enabled ''steal'' (GameLayout ?v (Some ''p2'')) \<longleftrightarrow>
           (\<exists>t p. Some ''p2'' = Some t \<and> player_at ?v t = Some p \<and> coins p > 0)"
    by (elim conjE) assumption
  with v5 have 3: "enabled ''steal'' (GameLayout ?v (Some ''p2''))" by (simp add: bob_def)
  from V have B: "\<forall>a \<in> {''coup'', ''assassinate'', ''super_assassinate'', ''steal'',
              ''super_steal'', ''super_coup''}.
          (Some ''p2'' = None \<longrightarrow> \<not> enabled a (GameLayout ?v (Some ''p2'')))
          \<and> (enabled a (GameLayout ?v (Some ''p2'')) \<longrightarrow>
               selectOrUseTarget a (Some ''p2'') = (Some (a, Some ''p2''), None)
               \<and> dispatched \<lparr>ui_view = ?v, selectedTarget = Some ''p2''\<rparr> a
                   = Some (a, Some ''p2'')
               \<and> ui_step \<lparr>ui_view = ?v, selectedTarget = Some ''p2''\<rparr> (ActionClick a)
                   = \<lparr>ui_view = ?v, selectedTarget = None\<rparr>)"
    by (elim conjE) assumption
  have m: "''steal'' \<in> {''coup'', ''assassinate'', ''super_assassinate'', ''steal'',
              ''super_steal'', ''super_coup''}"
    by simp
  from bspec [OF B m] 3
  have 4: "selectOrUseTarget ''steal'' (Some ''p2'') = (Some (''steal'', Some ''p2''), None)"
    and 5: "ui_step \<lparr>ui_view = ?v, selectedTarget = Some ''p2''\<rparr> (ActionClick ''steal'')
         = \<lparr>ui_view = ?v, selectedTarget = None\<rparr>"
    by simp_all
  from V have "\<forall>view' sel' c. phase view' = action_selection
            \<and> current_player view' \<noteq> Some (you view') \<longrightarrow>
          \<not> enabled c (GameLayout view' sel')"
    by (elim conjE) assumption
  with u have 6: "\<not> enabled ''income'' (GameLayout ?u None)" by blast
  have 7: "coins ann = 7" by (simp add: ann_def)
  from 1 7 have c1: "enabled ''coup'' (GameLayout ?v (Some ''p2''))" by simp
  from 2 7 have c2: "\<not> enabled ''coup'' (GameLayout ?w (Some ''p2''))" by simp
  from c1 c2 3 4 5 6 show ?thesis by (intro conjI)
qed

section \<open>Dangling references\<close>













section \<open>Target selection\<close>

lemma block_controls_names:
  "fst ` set (case block_window_panel view y of None \<Rightarrow> [] | Some p \<Rightarrow> controls p)
     \<subseteq> {''block_foreign_aid'', ''block_steal_captain'', ''block_steal_ambassador'',
         ''block_assassinate'', ''block_coup'', ''no_block''}"
proof (cases "pending_action view")
  case None
  then show ?thesis by (simp add: block_window_panel_def)
next
  case (Some act)
  show ?thesis unfolding block_window_controls [OF Some] by auto
qed

lemma challenge_controls_names:
  "fst ` set (case challenge_window_panel view y of None \<Rightarrow> [] | Some p \<Rightarrow> controls p)
     \<subseteq> {''challenge'', ''no_challenge''}"
  by (auto simp: challenge_window_panel_def Let_def challenge_render_controls
        split: option.splits if_splits)

lemma enabled_targeted:
  assumes a: "a \<in> set targetRequiredActions" and en: "enabled a (GameLayout view sel)"
  shows "truthy sel"
proof (cases "player_at view (you view)")
  case None
  then have "GameLayout view sel = Inl TypeError" by (simp add: GameLayout_def)
  with en show ?thesis by (simp add: enabled_def rendered_controls_def)
next
  case (Some y)
  from en have m: "a \<in> fst ` set (rendered_controls (GameLayout view sel))"
    by (force simp: enabled_def)
  show ?thesis
  proof (cases "phase view")
    case lobby
    with Some m a show ?thesis
      by (auto simp: rendered_controls_lobby targetRequiredActions_def)
  next
    case action_selection
    show ?thesis
    proof (cases "truthy sel \<longrightarrow> player_at view (the sel) \<noteq> None")
      case True
      from en a show ?thesis
        unfolding enabled_def rendered_controls_action [OF action_selection Some True]
        by (auto simp: targetRequiredActions_def split: if_splits)
    next
      case False
      then show ?thesis by simp
    qed
  next
    case block_window
    with Some m
    have "a \<in> fst ` set (case block_window_panel view y of None \<Rightarrow> [] | Some p \<Rightarrow> controls p)"
      by (simp add: rendered_controls_block)
    with block_controls_names [of view y]
    have "a \<in> {''block_foreign_aid'', ''block_steal_captain'', ''block_steal_ambassador'',
                ''block_assassinate'', ''block_coup'', ''no_block''}"
      by blast
    with a show ?thesis by (auto simp: targetRequiredActions_def)
  next
    case challenge_window
    with Some m
    have "a \<in> fst ` set (case challenge_window_panel view y of None \<Rightarrow> [] | Some p \<Rightarrow> controls p)"
      by (simp add: rendered_controls_challenge)
    with challenge_controls_names [of view y]
    have "a \<in> {''challenge'', ''no_challenge''}"
      by blast
    with a show ?thesis by (auto simp: targetRequiredActions_def)
  next
    case swap_choice
    with Some en show ?thesis
      by (simp add: enabled_def rendered_controls_def panel_of_GameLayout ActionPanel_def)
  next
    case loss_choice
    with Some en show ?thesis
      by (simp add: enabled_def rendered_controls_def panel_of_GameLayout ActionPanel_def)
  next
    case game_over
    with Some en show ?thesis
      by (simp add: enabled_def rendered_controls_def panel_of_GameLayout ActionPanel_def)
  qed
qed

lemma untargeted_keeps:
  "a \<in> {''income'', ''foreign_aid'', ''tax'', ''super_tax'', ''exchange'', ''super_exchange''}
   \<Longrightarrow> selectOrUseTarget a sel = (Some (a, None), sel)"
  by (auto simp: selectOrUseTarget_def targetRequiredActions_def)

text \<open>
  C5, as the code has it. The click on an enabled coup, assassinate, super_assassinate,
  steal, super_steal or super_coup sends the action with the selection as its target and
  resets the selection to null, at the dispatch. The click on an enabled income,
  foreign_aid, tax, super_tax, exchange or super_exchange sends the action without
  target and leaves the selection as it is. A new snapshot, whatever its phase, replaces
  the view and leaves the selection as it is: nothing in the component ties the
  selection to the phase.
\<close>

theorem selection_lifecycle:
  "(a \<in> {''coup'', ''assassinate'', ''super_assassinate'', ''steal'', ''super_steal'',
          ''super_coup''}
      \<and> enabled a (GameLayout (ui_view s) (selectedTarget s)) \<longrightarrow>
      selectedTarget (ui_step s (ActionClick a)) = None
      \<and> dispatched s a = Some (a, selectedTarget s))
   \<and> (a \<in> {''income'', ''foreign_aid'', ''tax'', ''super_tax'', ''exchange'',
            ''super_exchange''}
      \<and> enabled a (GameLayout (ui_view s) (selectedTarget s)) \<longrightarrow>
      selectedTarget (ui_step s (ActionClick a)) = selectedTarget s
      \<and> dispatched s a = Some (a, None))
   \<and> selectedTarget (ui_step s (Snapshot v)) = selectedTarget s
   \<and> ui_view (ui_step s (Snapshot v)) = v"
proof -
  have 1: "selectedTarget (ui_step s (ActionClick a)) = None
        \<and> dispatched s a = Some (a, selectedTarget s)"
    if a: "a \<in> {''coup'', ''assassinate'', ''super_assassinate'', ''steal'', ''super_steal'',
                  ''super_coup''}"
      and en: "enabled a (GameLayout (ui_view s) (selectedTarget s))"
  proof -
    from six_targeted [OF a] en have "truthy (selectedTarget s)" by (rule enabled_targeted)
    with six_targeted [OF a]
    have "selectOrUseTarget a (selectedTarget s) = (Some (a, selectedTarget s), None)"
      by (rule selectOrUseTarget_clears)
    with en show ?thesis by (simp add: dispatched_def)
  qed
  have 2: "selectedTarget (ui_step s (ActionClick a)) = selectedTarget s
        \<and> dispatched s a = Some (a, None)"
    if a: "a \<in> {''income'', ''foreign_aid'', ''tax'', ''super_tax'', ''exchange'',
                  ''super_exchange''}"
      and en: "enabled a (GameLayout (ui_view s) (selectedTarget s))"
    using en untargeted_keeps [OF a, of "selectedTarget s"] by (simp add: dispatched_def)
  from 1 2 show ?thesis by simp
qed

theorem selection_lifecycle_witness:
  "selectedTarget
     (ui_step \<lparr>ui_view = table_view normal_team action_selection ''p1'' None None,
               selectedTarget = Some ''p2''\<rparr> (ActionClick ''steal'')) = None
   \<and> dispatched \<lparr>ui_view = table_view normal_team action_selection ''p1'' None None,
                 selectedTarget = Some ''p2''\<rparr> ''steal'' = Some (''steal'', Some ''p2'')
   \<and> selectedTarget
     (ui_step \<lparr>ui_view = table_view normal_team action_selection ''p1'' None None,
               selectedTarget = Some ''p2''\<rparr> (ActionClick ''assassinate'')) = None
   \<and> selectedTarget
     (ui_step \<lparr>ui_view = table_view normal_team action_selection ''p1'' None None,
               selectedTarget = Some ''p2''\<rparr> (ActionClick ''income'')) = Some ''p2''
   \<and> dispatched \<lparr>ui_view = table_view normal_team action_selection ''p1'' None None,
                 selectedTarget = Some ''p2''\<rparr> ''income'' = Some (''income'', None)"
proof -
  let ?s = "\<lparr>ui_view = table_view normal_team action_selection ''p1'' None None,
             selectedTarget = Some ''p2''\<rparr>"
  have e1: "enabled ''steal'' (GameLayout (ui_view ?s) (selectedTarget ?s))"
    and e2: "enabled ''assassinate'' (GameLayout (ui_view ?s) (selectedTarget ?s))"
    and e3: "enabled ''income'' (GameLayout (ui_view ?s) (selectedTarget ?s))"
    by (simp_all add: enabled_def rendered_controls_def GameLayout_def ActionPanel_def
          action_selection_panel_def Let_def canAct_of_def truthy_def targetHasCoins_of_def
          guarded_player_def sample_defs)
  from e1 selection_lifecycle [of "''steal''" ?s]
  have 1: "selectedTarget (ui_step ?s (ActionClick ''steal'')) = None
           \<and> dispatched ?s ''steal'' = Some (''steal'', Some ''p2'')"
    by simp
  from e2 selection_lifecycle [of "''assassinate''" ?s]
  have 2: "selectedTarget (ui_step ?s (ActionClick ''assassinate'')) = None"
    by simp
  from e3 selection_lifecycle [of "''income''" ?s]
  have 3: "selectedTarget (ui_step ?s (ActionClick ''income'')) = Some ''p2''
           \<and> dispatched ?s ''income'' = Some (''income'', None)"
    by simp
  from 1 2 3 show ?thesis by (intro conjI) simp_all
qed

text \<open>
  Ann selects Bob on her turn, then the next snapshot is in the block window: Bob is
  still selected.
\<close>

theorem selection_outlives_phase_counterexample:
  "selectedTarget
     (foldl ui_step
        \<lparr>ui_view = table_view normal_team action_selection ''p1'' None None,
         selectedTarget = None\<rparr>
        [SeatClick bob,
         Snapshot (table_view normal_team block_window ''p1''
           (Some \<lparr>actor_id = ''p1'', action = ''foreign_aid'', target_id = None\<rparr>) None)])
     = Some ''p2''
   \<and> phase (ui_view
     (foldl ui_step
        \<lparr>ui_view = table_view normal_team action_selection ''p1'' None None,
         selectedTarget = None\<rparr>
        [SeatClick bob,
         Snapshot (table_view normal_team block_window ''p1''
           (Some \<lparr>actor_id = ''p1'', action = ''foreign_aid'', target_id = None\<rparr>) None)]))
     = block_window"
  by (simp add: GameLayout_def ActionPanel_def action_selection_panel_def Let_def
        rotate_seats_def seats_of_def List.map_filter_def handleSeatClick_def truthy_def
        sample_defs)

end
